theory Spec2Isabelle
  imports Complex_Main "HOL-Library.List_Lexorder" "HOL-Library.Char_ord"
begin

section \<open>Data model\<close>

text \<open>
  A JavaScript \<open>number\<close> is modelled as a \<open>real\<close>: the curves, the smoothing and the
  classifier thresholds are read as the real arithmetic they are written in, without the
  rounding of IEEE doubles. A \<open>Date\<close> is its time value, an integer count of
  milliseconds since the epoch. A function that reads the local calendar fields of one
  date takes the offset \<open>tz\<close> of local time (milliseconds east of UTC) as a parameter.
  The retention cutoff of the aggregator steps seven calendar days back, between two
  instants that may lie on either side of a daylight-saving change; it takes the zone
  itself as a parameter.
\<close>

type_synonym Date = int

text \<open>
  \<open>calculateOverallScore\<close> takes any object carrying the three dimension fields; both
  \<open>DailyWellbeingScores\<close> and \<open>WellbeingScore\<close> do. The common part is a record of its
  own, which the two interfaces extend.
\<close>

record DimensionScores =
  sleep :: real
  physicalActivity :: real
  socialInteraction :: real

record DailyWellbeingScores = DimensionScores +
  date :: string

record WellbeingMetrics =
  sleepHours :: real
  physicalActivityMinutes :: real
  socialInteractionMinutes :: real

record WellbeingScore = DimensionScores +
  overall :: real
  lastUpdated :: Date

section \<open>Scoring engine: \<open>src/lib/wellbeingScoring.ts\<close>\<close>

definition calculateSleepScore :: "real \<Rightarrow> real" where
  "calculateSleepScore h =
     (if h \<ge> 8 then 100
      else if h \<ge> 7.5 then 90 + ((h - 7.5) / 0.5) * 10
      else if h \<ge> 7 then 80 + ((h - 7) / 0.5) * 10
      else if h \<ge> 6 then 60 + ((h - 6) / 1) * 20
      else if h \<ge> 5 then 30 + ((h - 5) / 1) * 30
      else if h \<ge> 4 then 10 + ((h - 4) / 1) * 20
      else max 0 ((h / 4) * 10))"

definition calculatePhysicalActivityScore :: "real \<Rightarrow> real" where
  "calculatePhysicalActivityScore m =
     (if m \<ge> 30 then 100
      else if m \<ge> 20 then 80 + ((m - 20) / 10) * 20
      else if m \<ge> 15 then 65 + ((m - 15) / 5) * 15
      else if m \<ge> 10 then 50 + ((m - 10) / 5) * 15
      else if m \<ge> 5 then 25 + ((m - 5) / 5) * 25
      else max 0 ((m / 5) * 25))"

definition calculateSocialInteractionScore :: "real \<Rightarrow> real" where
  "calculateSocialInteractionScore m =
     (if m \<ge> 60 then 100
      else if m \<ge> 45 then 85 + ((m - 45) / 15) * 15
      else if m \<ge> 30 then 70 + ((m - 30) / 15) * 15
      else if m \<ge> 20 then 55 + ((m - 20) / 10) * 15
      else if m \<ge> 10 then 40 + ((m - 10) / 10) * 15
      else if m \<ge> 5 then 20 + ((m - 5) / 5) * 20
      else max 0 ((m / 5) * 20))"

text \<open>
  \<open>calculateDailyScores\<close> stamps the scores with today's date string,
  \<open>new Date().toISOString().split('T')[0]\<close>; the model takes that string as \<open>today\<close>.
\<close>

definition calculateDailyScores :: "string \<Rightarrow> WellbeingMetrics \<Rightarrow> DailyWellbeingScores" where
  "calculateDailyScores today metrics =
     \<lparr> sleep = calculateSleepScore (sleepHours metrics),
       physicalActivity = calculatePhysicalActivityScore (physicalActivityMinutes metrics),
       socialInteraction = calculateSocialInteractionScore (socialInteractionMinutes metrics),
       date = today \<rparr>"

text \<open>The parameter \<open>alpha\<close> has the default value 0.3, which every caller uses.\<close>

definition calculateExponentiallyWeightedScore :: "real \<Rightarrow> real \<Rightarrow> real \<Rightarrow> real" where
  "calculateExponentiallyWeightedScore historicalScore newDailyScore alpha =
     alpha * newDailyScore + (1 - alpha) * historicalScore"

definition calculateOverallScore :: "'a DimensionScores_scheme \<Rightarrow> real" where
  "calculateOverallScore scores =
     (sleep scores + physicalActivity scores + socialInteraction scores) / 3"

subsection \<open>Local calendar fields of a \<open>Date\<close>\<close>

definition msPerHour :: int where
  "msPerHour = 3600000"

definition msPerDay :: int where
  "msPerDay = 86400000"

text \<open>\<open>d.getHours()\<close>: the hour of the local day, 0 to 23.\<close>

definition getHours :: "int \<Rightarrow> Date \<Rightarrow> int" where
  "getHours tz d = ((d + tz) div msPerHour) mod 24"

text \<open>\<open>d.setHours(0, 0, 0, 0)\<close> and \<open>d.setHours(23, 59, 59, 999)\<close> on a copy of \<open>d\<close>.\<close>

definition startOfDay :: "int \<Rightarrow> Date \<Rightarrow> Date" where
  "startOfDay tz d = d - (d + tz) mod msPerDay"

definition endOfDay :: "int \<Rightarrow> Date \<Rightarrow> Date" where
  "endOfDay tz d = startOfDay tz d + (msPerDay - 1)"

text \<open>
  The local calendar day of \<open>d\<close>, as a day number: two dates agree on
  \<open>getFullYear()\<close>, \<open>getMonth()\<close> and \<open>getDate()\<close> exactly when they have the same one.
\<close>

definition localDay :: "int \<Rightarrow> Date \<Rightarrow> int" where
  "localDay tz d = (d + tz) div msPerDay"

subsection \<open>Classified events\<close>

datatype ActivityType = Stationary | Walking | Running | Cycling | Sleeping | Unknown

datatype ConversationState = Silent | Talking | Conversation

text \<open>
  \<open>ActivityData\<close> and \<open>ActivityStatus\<close> have the same three fields, and so have
  \<open>ConversationData\<close> and \<open>ConversationStatus\<close>; TypeScript types are structural, hence
  one record stands for each pair. Both kinds of event carry a \<open>timestamp\<close>.
\<close>

record Timestamped =
  timestamp :: Date

record ActivityData = Timestamped +
  activity :: ActivityType
  confidence :: real

record ConversationData = Timestamped +
  state :: ConversationState
  duration :: real

subsection \<open>Daily metrics from the event histories\<close>

text \<open>
  The loop \<open>for (i = 0; i < dayActivities.length - 1; i++)\<close> visits each event together
  with its successor; the last event has none and is not visited. The accumulator
  \<open>sleepSeconds\<close> is threaded through.
\<close>

fun sleepSecondsLoop :: "int \<Rightarrow> ActivityData list \<Rightarrow> real \<Rightarrow> real" where
  "sleepSecondsLoop tz (current # next # rest) sleepSeconds =
     sleepSecondsLoop tz (next # rest)
       (if activity current = Sleeping \<and> confidence current \<ge> 0.7 * 100 then
          (let hour = getHours tz (timestamp current);
               isNightTime = (hour \<ge> 21 \<or> hour \<le> 8)
           in if isNightTime
              then sleepSeconds + real_of_int (timestamp next - timestamp current) / 1000
              else sleepSeconds)
        else sleepSeconds)"
| "sleepSecondsLoop tz _ sleepSeconds = sleepSeconds"

definition calculateSleepHoursFromActivities :: "int \<Rightarrow> ActivityData list \<Rightarrow> Date \<Rightarrow> real" where
  "calculateSleepHoursFromActivities tz activities d =
     (let dayStart = startOfDay tz d;
          dayEnd = endOfDay tz d;
          dayActivities = filter (\<lambda>a. timestamp a \<ge> dayStart \<and> timestamp a \<le> dayEnd) activities
      in sleepSecondsLoop tz dayActivities 0 / 3600)"

fun activitySecondsLoop :: "ActivityData list \<Rightarrow> real \<Rightarrow> real" where
  "activitySecondsLoop (current # next # rest) activitySeconds =
     activitySecondsLoop (next # rest)
       (if activity current \<in> set [Walking, Running, Cycling] \<and> confidence current \<ge> 0.6 * 100 then
          (let duration = real_of_int (timestamp next - timestamp current) / 1000;
               weightedDuration =
                 (if activity current = Running then duration * 1.5
                  else if activity current = Cycling then duration * 1.3
                  else duration)
           in activitySeconds + weightedDuration)
        else activitySeconds)"
| "activitySecondsLoop _ activitySeconds = activitySeconds"

definition calculatePhysicalActivityMinutesFromActivities ::
    "int \<Rightarrow> ActivityData list \<Rightarrow> Date \<Rightarrow> real" where
  "calculatePhysicalActivityMinutesFromActivities tz activities d =
     (let dayStart = startOfDay tz d;
          dayEnd = endOfDay tz d;
          dayActivities = filter (\<lambda>a. timestamp a \<ge> dayStart \<and> timestamp a \<le> dayEnd) activities
      in activitySecondsLoop dayActivities 0 / 60)"

fun interactionSecondsLoop :: "ConversationData list \<Rightarrow> real \<Rightarrow> real" where
  "interactionSecondsLoop [] interactionSeconds = interactionSeconds"
| "interactionSecondsLoop (conv # rest) interactionSeconds =
     interactionSecondsLoop rest
       (if state conv = Talking \<or> state conv = Conversation
        then interactionSeconds + duration conv
        else interactionSeconds)"

definition calculateSocialInteractionMinutesFromConversations ::
    "int \<Rightarrow> ConversationData list \<Rightarrow> Date \<Rightarrow> real" where
  "calculateSocialInteractionMinutesFromConversations tz conversations d =
     (let dayStart = startOfDay tz d;
          dayEnd = endOfDay tz d;
          dayConversations =
            filter (\<lambda>c. timestamp c \<ge> dayStart \<and> timestamp c \<le> dayEnd) conversations
      in interactionSecondsLoop dayConversations 0 / 60)"

section \<open>Event aggregator: \<open>WellbeingAggregator\<close>\<close>

record WellbeingAggregator =
  activityHistory :: "ActivityData list"
  conversationHistory :: "ConversationData list"

definition MAX_HISTORY_DAYS :: int where
  "MAX_HISTORY_DAYS = 7"

text \<open>
  The time zone of the device, as the platform knows it: the offset of local time from
  UTC in milliseconds, at a UTC instant (\<open>offsetAtUTC\<close>) and at a local time value
  (\<open>offsetAtLocal\<close>). The two are the local time zone adjustment of ECMAScript with its
  flag true and false.
\<close>

record TimeZone =
  offsetAtUTC :: "Date \<Rightarrow> int"
  offsetAtLocal :: "int \<Rightarrow> int"

text \<open>
  \<open>d.setDate(d.getDate() - n)\<close>: the local time value of \<open>d\<close> is moved \<open>n\<close> calendar days
  back, keeping the time within the day, and converted to a time value with the offset
  in force at that local time.
\<close>

definition setDateBack :: "TimeZone \<Rightarrow> int \<Rightarrow> Date \<Rightarrow> Date" where
  "setDateBack zone n d =
     (let newDate = d + offsetAtUTC zone d - n * msPerDay
      in newDate - offsetAtLocal zone newDate)"

text \<open>\<open>cutoff = new Date(); cutoff.setDate(cutoff.getDate() - this.MAX_HISTORY_DAYS)\<close>.\<close>

definition cutoff :: "TimeZone \<Rightarrow> Date \<Rightarrow> Date" where
  "cutoff zone now = setDateBack zone MAX_HISTORY_DAYS now"

definition addActivity ::
    "TimeZone \<Rightarrow> Date \<Rightarrow> ActivityData \<Rightarrow> WellbeingAggregator \<Rightarrow> WellbeingAggregator" where
  "addActivity zone now a agg =
     agg\<lparr> activityHistory :=
            filter (\<lambda>x. timestamp x \<ge> cutoff zone now) (activityHistory agg @ [a]) \<rparr>"

definition addConversation ::
    "TimeZone \<Rightarrow> Date \<Rightarrow> ConversationData \<Rightarrow> WellbeingAggregator \<Rightarrow> WellbeingAggregator" where
  "addConversation zone now c agg =
     agg\<lparr> conversationHistory :=
            filter (\<lambda>x. timestamp x \<ge> cutoff zone now) (conversationHistory agg @ [c]) \<rparr>"

text \<open>The reads. None of them changes the aggregator; \<open>now\<close> is the time of the call.\<close>

definition calculateTodayMetrics :: "int \<Rightarrow> Date \<Rightarrow> WellbeingAggregator \<Rightarrow> WellbeingMetrics" where
  "calculateTodayMetrics tz now agg =
     (let today = now;
          activityData = map (\<lambda>a. \<lparr> timestamp = timestamp a, activity = activity a,
                                    confidence = confidence a \<rparr>) (activityHistory agg);
          conversationData = map (\<lambda>c. \<lparr> timestamp = timestamp c, state = state c,
                                        duration = duration c \<rparr>) (conversationHistory agg)
      in \<lparr> sleepHours = calculateSleepHoursFromActivities tz activityData today,
           physicalActivityMinutes =
             calculatePhysicalActivityMinutesFromActivities tz activityData today,
           socialInteractionMinutes =
             calculateSocialInteractionMinutesFromConversations tz conversationData today \<rparr>)"

definition calculateMetricsForDate :: "int \<Rightarrow> WellbeingAggregator \<Rightarrow> Date \<Rightarrow> WellbeingMetrics" where
  "calculateMetricsForDate tz agg d =
     (let activityData =
            map (\<lambda>a. \<lparr> timestamp = timestamp a, activity = activity a, confidence = confidence a \<rparr>)
              (filter (\<lambda>a. localDay tz (timestamp a) = localDay tz d) (activityHistory agg));
          conversationData =
            map (\<lambda>c. \<lparr> timestamp = timestamp c, state = state c, duration = duration c \<rparr>)
              (filter (\<lambda>c. localDay tz (timestamp c) = localDay tz d) (conversationHistory agg))
      in \<lparr> sleepHours = calculateSleepHoursFromActivities tz activityData d,
           physicalActivityMinutes = calculatePhysicalActivityMinutesFromActivities tz activityData d,
           socialInteractionMinutes =
             calculateSocialInteractionMinutesFromConversations tz conversationData d \<rparr>)"

definition getActivityHistory :: "WellbeingAggregator \<Rightarrow> ActivityData list" where
  "getActivityHistory agg = activityHistory agg"

definition getConversationHistory :: "WellbeingAggregator \<Rightarrow> ConversationData list" where
  "getConversationHistory agg = conversationHistory agg"

definition clearHistory :: "WellbeingAggregator \<Rightarrow> WellbeingAggregator" where
  "clearHistory agg = agg\<lparr> activityHistory := [], conversationHistory := [] \<rparr>"

section \<open>Sample data: \<open>generateSampleWellbeingData\<close>\<close>

definition clamp :: "real \<Rightarrow> real \<Rightarrow> real \<Rightarrow> real" where
  "clamp v lo hi = min (max v lo) hi"

text \<open>
  \<open>Number(x.toFixed(1))\<close>: \<open>toFixed\<close> takes the integer \<open>n\<close> for which \<open>n / 10\<close> is
  closest to the magnitude of \<open>x\<close>, the larger one on a tie, and keeps the sign.
\<close>

definition toFixed1 :: "real \<Rightarrow> real" where
  "toFixed1 x =
     (if x < 0 then - (of_int \<lfloor>(- x) * 10 + 1 / 2\<rfloor> / 10)
      else of_int \<lfloor>x * 10 + 1 / 2\<rfloor> / 10)"

text \<open>
  \<open>xs.sort((a, b) => b.date.localeCompare(a.date))\<close>: a stable sort, descending by date
  string. Date strings have the fixed shape YYYY-MM-DD, on which \<open>localeCompare\<close> is the
  lexicographic order of the characters. An ascending stable sort of the reversed list,
  reversed again, is the descending stable sort.
\<close>

definition sortNewestFirst :: "DailyWellbeingScores list \<Rightarrow> DailyWellbeingScores list" where
  "sortNewestFirst xs = rev (sort_key date (rev xs))"

text \<open>
  The entry of loop index \<open>i\<close>. Its date string is that of the day \<open>i\<close> days before today,
  given by \<open>dateString i\<close>: the calendar arithmetic of \<open>Date\<close> is the platform's, so the
  model takes it as a parameter.
\<close>

definition sampleDay :: "(nat \<Rightarrow> string) \<Rightarrow> nat \<Rightarrow> DailyWellbeingScores" where
  "sampleDay dateString i =
     (let sleepBase = 85;
          activityBase = 78;
          socialBase = 72;
          sleepVariation = sin ((real i + 1) * 0.6) * 8;
          activityVariation = cos ((real i + 1) * 0.4) * 10;
          socialVariation = sin ((real i + 2) * 0.7) * 12;
          sleepV = clamp (sleepBase + sleepVariation) 70 98;
          physicalActivityV = clamp (activityBase + activityVariation) 60 95;
          socialInteractionV = clamp (socialBase + socialVariation) 55 92
      in \<lparr> sleep = toFixed1 sleepV,
           physicalActivity = toFixed1 physicalActivityV,
           socialInteraction = toFixed1 socialInteractionV,
           date = dateString i \<rparr>)"

text \<open>
  With \<open>days = 0\<close> the list is empty, \<open>latest\<close> is \<open>undefined\<close> and reading
  \<open>latest.sleep\<close> throws a \<open>TypeError\<close>: the result is \<open>None\<close>.
\<close>

definition generateSampleWellbeingData ::
    "(nat \<Rightarrow> string) \<Rightarrow> Date \<Rightarrow> nat \<Rightarrow> (DailyWellbeingScores list \<times> WellbeingScore) option" where
  "generateSampleWellbeingData dateString today days =
     (let dailyScores = sortNewestFirst (map (sampleDay dateString) [0..<days])
      in case dailyScores of
           [] \<Rightarrow> None
         | latest # _ \<Rightarrow>
             Some (dailyScores,
               \<lparr> sleep = sleep latest,
                 physicalActivity = physicalActivity latest,
                 socialInteraction = socialInteraction latest,
                 overall = toFixed1 (calculateOverallScore
                   \<lparr> sleep = sleep latest,
                     physicalActivity = physicalActivity latest,
                     socialInteraction = socialInteraction latest \<rparr>),
                 lastUpdated = today \<rparr>))"

section \<open>Wellbeing context: \<open>WellbeingProvider\<close>\<close>

text \<open>
  The provider's React state, the two keys of the local store (\<open>AsyncStorage\<close>) and the
  two remote tables (the rows of the signed-in user).
\<close>

record WellbeingState =
  currentScores :: "WellbeingScore option"
  dailyScores :: "DailyWellbeingScores list"
  isUsingSampleData :: bool
  storedScores :: "WellbeingScore option"
  storedDaily :: "DailyWellbeingScores list option"
  dbScore :: "WellbeingScore option"
  dbDaily :: "string \<rightharpoonup> DailyWellbeingScores"

text \<open>
  What a call reads from outside: today's date string and the current time
  (\<open>new Date()\<close>), whether a user session exists, and whether a write to a key of the
  local store or to a remote table succeeds.
\<close>

record Env =
  todayString :: string
  currentTime :: Date
  sessionUser :: bool
  setItemOk :: "string \<Rightarrow> bool"
  upsertOk :: "string \<Rightarrow> bool"

definition STORAGE_KEY :: string where
  "STORAGE_KEY = ''@wellbeing_scores''"

definition STORAGE_KEY_DAILY :: string where
  "STORAGE_KEY_DAILY = ''@wellbeing_daily_scores''"

text \<open>
  \<open>saveScores\<close>: two writes in one \<open>try\<close>; a write that throws is logged and ends the
  function, so the second key is written only after the first.
\<close>

definition saveScores ::
    "Env \<Rightarrow> WellbeingScore \<Rightarrow> DailyWellbeingScores list \<Rightarrow> WellbeingState \<Rightarrow> WellbeingState" where
  "saveScores env scores daily st =
     (if setItemOk env STORAGE_KEY then
        (if setItemOk env STORAGE_KEY_DAILY
         then st\<lparr> storedScores := Some scores, storedDaily := Some daily \<rparr>
         else st\<lparr> storedScores := Some scores \<rparr>)
      else st)"

text \<open>
  \<open>syncToDatabase\<close>: without a session it returns at once; each upsert reports its error
  instead of throwing, so both are attempted.
\<close>

definition syncToDatabase ::
    "Env \<Rightarrow> WellbeingScore \<Rightarrow> DailyWellbeingScores \<Rightarrow> WellbeingState \<Rightarrow> WellbeingState" where
  "syncToDatabase env scores dailyScore st =
     (if \<not> sessionUser env then st
      else
        (let st1 = (if upsertOk env ''wellbeing_daily_scores''
                    then st\<lparr> dbDaily := (dbDaily st)(date dailyScore \<mapsto> dailyScore) \<rparr>
                    else st)
         in if upsertOk env ''wellbeing_scores''
            then st1\<lparr> dbScore := Some scores \<rparr>
            else st1))"

text \<open>\<open>Array.prototype.findIndex\<close>: the first index whose element satisfies \<open>P\<close>, or \<open>-1\<close>.\<close>

fun findIndex :: "('a \<Rightarrow> bool) \<Rightarrow> 'a list \<Rightarrow> int" where
  "findIndex P [] = - 1"
| "findIndex P (x # xs) =
     (if P x then 0
      else (let i = findIndex P xs in if i < 0 then - 1 else i + 1))"

definition updateScores :: "Env \<Rightarrow> WellbeingMetrics \<Rightarrow> WellbeingState \<Rightarrow> WellbeingState" where
  "updateScores env metrics st =
     (let baselineScores = (if isUsingSampleData st then None else currentScores st);
          baselineDaily = (if isUsingSampleData st then [] else dailyScores st);
          todayScores = calculateDailyScores (todayString env) metrics;
          updatedScores0 =
            (case baselineScores of
               Some baseline \<Rightarrow>
                 \<lparr> sleep = calculateExponentiallyWeightedScore
                             (sleep baseline) (sleep todayScores) 0.3,
                   physicalActivity = calculateExponentiallyWeightedScore
                             (physicalActivity baseline) (physicalActivity todayScores) 0.3,
                   socialInteraction = calculateExponentiallyWeightedScore
                             (socialInteraction baseline) (socialInteraction todayScores) 0.3,
                   overall = 0,
                   lastUpdated = currentTime env \<rparr>
             | None \<Rightarrow>
                 \<lparr> sleep = sleep todayScores,
                   physicalActivity = physicalActivity todayScores,
                   socialInteraction = socialInteraction todayScores,
                   overall = 0,
                   lastUpdated = currentTime env \<rparr>);
          updatedScores = updatedScores0\<lparr> overall := calculateOverallScore updatedScores0 \<rparr>;
          existingIndex = findIndex (\<lambda>d. date d = date todayScores) baselineDaily;
          updatedDailyScores0 =
            (if existingIndex \<ge> 0 then baselineDaily[nat existingIndex := todayScores]
             else (let pushed = baselineDaily @ [todayScores]
                   in if length pushed > 30 then tl pushed else pushed));
          updatedDailyScores = sortNewestFirst updatedDailyScores0;
          st1 = st\<lparr> currentScores := Some updatedScores,
                    dailyScores := updatedDailyScores,
                    isUsingSampleData := False \<rparr>;
          st2 = saveScores env updatedScores updatedDailyScores st1
      in if sessionUser env then syncToDatabase env updatedScores todayScores st2 else st2)"

section \<open>Periodic collection: \<open>useWellbeingDataCollection\<close>\<close>

record CollectionState =
  aggregator :: WellbeingAggregator
  wellbeing :: WellbeingState
  lastUpdate :: Date

text \<open>
  One run of \<open>updateWellbeingScores\<close>, the function the hook calls on mount and then every
  five minutes.
\<close>

definition updateWellbeingScores :: "int \<Rightarrow> Env \<Rightarrow> CollectionState \<Rightarrow> CollectionState" where
  "updateWellbeingScores tz env cs =
     (let metrics = calculateTodayMetrics tz (currentTime env) (aggregator cs)
      in if sleepHours metrics > 0 \<or> physicalActivityMinutes metrics > 0
            \<or> socialInteractionMinutes metrics > 0
         then cs\<lparr> wellbeing := updateScores env metrics (wellbeing cs),
                  lastUpdate := currentTime env \<rparr>
         else cs)"

section \<open>Classifiers of the status screen: \<open>src/app/login.tsx\<close>\<close>

text \<open>\<open>xs.slice(-n)\<close>: the last \<open>n\<close> elements, all of them when there are fewer.\<close>

definition sliceLast :: "nat \<Rightarrow> 'a list \<Rightarrow> 'a list" where
  "sliceLast n xs = drop (length xs - n) xs"

text \<open>The statistics \<open>classifyActivity\<close> and \<open>detectConversation\<close> compute of a window.\<close>

definition windowMean :: "real list \<Rightarrow> real" where
  "windowMean xs = sum_list xs / real (length xs)"

definition windowVariance :: "real list \<Rightarrow> real" where
  "windowVariance xs = sum_list (map (\<lambda>v. (v - windowMean xs) ^ 2) xs) / real (length xs)"

definition windowStd :: "real list \<Rightarrow> real" where
  "windowStd xs = sqrt (windowVariance xs)"

text \<open>The refs and state variables the activity classifier reads and writes.\<close>

record ActivityMonitor =
  accelHistoryRef :: "real list"
  speedHistoryRef :: "real list"
  gpsAccuracy :: real
  inactiveTimeRef :: real
  currentActivity :: ActivityType
  activityConfidence :: real
  inactiveTime :: real
  activityHistoryRef :: "ActivityData list"

text \<open>
  One tick of \<open>classifyActivity\<close> at time \<open>now\<close>. With fewer than ten acceleration
  samples it returns at once and nothing changes. The rules are tried in the order of the
  source; each gives the label, the confidence and the new value of the inactivity
  counter.
\<close>

definition classifyActivity :: "Date \<Rightarrow> ActivityMonitor \<Rightarrow> ActivityMonitor" where
  "classifyActivity now m =
     (let recentAccel = sliceLast 30 (accelHistoryRef m)
      in if length recentAccel < 10 then m
         else
          (let recentSpeed = sliceLast 10 (speedHistoryRef m);
               accelMean = windowMean recentAccel;
               accelStd = windowStd recentAccel;
               speedMean = (if length recentSpeed > 0 then windowMean recentSpeed else 0);
               deviationFromGravity = \<bar>accelMean - 1.0\<bar>;
               inactive = inactiveTimeRef m;
               (act, conf, inactive') =
                 (if accelStd < 0.05 \<and> speedMean < 0.3 \<and> deviationFromGravity < 0.1 then
                    (Stationary, min 95 (80 + (1 - accelStd * 10) * 15), inactive + 1)
                  else if (accelStd \<ge> 0.05 \<and> accelStd < 0.4 \<and> speedMean \<ge> 0.3 \<and> speedMean < 2.5)
                        \<or> (deviationFromGravity \<ge> 0.1 \<and> speedMean \<ge> 0.3 \<and> speedMean < 2.5) then
                    (Walking, min 92 (65 + accelStd * 60), 0)
                  else if (accelStd \<ge> 0.4 \<and> speedMean \<ge> 2.0) \<or> (speedMean \<ge> 2.5 \<and> speedMean < 7) then
                    (Running, min 95 (75 + min accelStd 1 * 20), 0)
                  else if speedMean \<ge> 3.5 \<and> speedMean < 12 \<and> accelStd < 0.4 then
                    (Cycling, min 88 (65 + (speedMean / 12) * 23), 0)
                  else if accelStd \<ge> 0.05 \<and> accelStd < 0.5 \<and> speedMean < 0.3 \<and> gpsAccuracy m > 20 then
                    (Walking, min 75 (50 + accelStd * 50), 0)
                  else if accelStd < 0.03 \<and> speedMean < 0.2 \<and> inactive > 30 then
                    (Sleeping, min 90 (60 + min (inactive / 120) 1 * 30), inactive)
                  else if speedMean < 0.3 then
                    (Stationary, 55, inactive + 1)
                  else
                    (Unknown, 35, 0))
           in m\<lparr> inactiveTimeRef := inactive',
                 currentActivity := act,
                 activityConfidence := conf,
                 inactiveTime := inactive',
                 activityHistoryRef :=
                   (if length (activityHistoryRef m) = 0
                       \<or> activity (last (activityHistoryRef m)) \<noteq> act
                    then sliceLast 20 (activityHistoryRef m)
                           @ [\<lparr> timestamp = now, activity = act, confidence = conf \<rparr>]
                    else activityHistoryRef m) \<rparr>))"

text \<open>
  One tick of \<open>detectConversation\<close>: the new value of \<open>conversationState\<close>, given the
  shared audio history and the state so far. With fewer than twenty samples the state is
  kept.
\<close>

definition detectConversation :: "real list \<Rightarrow> ConversationState \<Rightarrow> ConversationState" where
  "detectConversation sharedAudioHistory conversationState =
     (let recentAudio = sliceLast 50 sharedAudioHistory
      in if length recentAudio < 20 then conversationState
         else
          (let audioMean = windowMean recentAudio;
               threshold = audioMean + 8;
               peaks = length (filter (\<lambda>level. level > threshold) recentAudio);
               peakRate = real peaks / real (length recentAudio);
               audioStd = windowStd recentAudio;
               newState =
                 (if audioMean < 12 then Silent
                  else if audioMean \<ge> 12 \<and> audioMean < 30 then
                    (if peakRate < 0.25 then Silent else Talking)
                  else if audioMean \<ge> 30 \<and> audioMean < 45 then Talking
                  else if audioMean \<ge> 45 \<or> (peakRate \<ge> 0.35 \<and> audioStd > 12) then Conversation
                  else Talking)
           in if newState \<noteq> conversationState then newState else conversationState))"

section \<open>The score curves\<close>

lemma calculateSleepScore_mono: "mono calculateSleepScore"
  unfolding mono_def calculateSleepScore_def
  by (auto simp: max_def field_simps)

lemma calculatePhysicalActivityScore_mono: "mono calculatePhysicalActivityScore"
  unfolding mono_def calculatePhysicalActivityScore_def
  by (auto simp: max_def field_simps)

lemma calculateSocialInteractionScore_mono: "mono calculateSocialInteractionScore"
  unfolding mono_def calculateSocialInteractionScore_def
  by (auto simp: max_def field_simps)

lemma calculateSleepScore_range:
  "0 \<le> calculateSleepScore h \<and> calculateSleepScore h \<le> 100"
  unfolding calculateSleepScore_def by (auto simp: max_def field_simps)

lemma calculatePhysicalActivityScore_range:
  "0 \<le> calculatePhysicalActivityScore m \<and> calculatePhysicalActivityScore m \<le> 100"
  unfolding calculatePhysicalActivityScore_def by (auto simp: max_def field_simps)

lemma calculateSocialInteractionScore_range:
  "0 \<le> calculateSocialInteractionScore m \<and> calculateSocialInteractionScore m \<le> 100"
  unfolding calculateSocialInteractionScore_def by (auto simp: max_def field_simps)

lemma score_anchors:
  "calculateSleepScore 0 = 0"
  "calculatePhysicalActivityScore 0 = 0"
  "calculateSocialInteractionScore 0 = 0"
  "calculateSleepScore 8 = 100"
  "calculatePhysicalActivityScore 30 = 100"
  "calculateSocialInteractionScore 60 = 100"
  by (simp_all add: calculateSleepScore_def calculatePhysicalActivityScore_def
        calculateSocialInteractionScore_def)

text \<open>
  Claim C4. For every real input, each of the three score curves (sleep, physical
  activity, social interaction) returns a value between 0 and 100, the curve is monotonic
  non-decreasing, and it takes the anchor values: 0 at input 0, and 100 at 8 hours of
  sleep, 30 minutes of activity and 60 minutes of social interaction.
\<close>

theorem score_curves_range_mono_anchors:
  "(0 \<le> calculateSleepScore x \<and> calculateSleepScore x \<le> 100)
   \<and> (0 \<le> calculatePhysicalActivityScore x \<and> calculatePhysicalActivityScore x \<le> 100)
   \<and> (0 \<le> calculateSocialInteractionScore x \<and> calculateSocialInteractionScore x \<le> 100)
   \<and> mono calculateSleepScore
   \<and> mono calculatePhysicalActivityScore
   \<and> mono calculateSocialInteractionScore
   \<and> calculateSleepScore 0 = 0
   \<and> calculatePhysicalActivityScore 0 = 0
   \<and> calculateSocialInteractionScore 0 = 0
   \<and> calculateSleepScore 8 = 100
   \<and> calculatePhysicalActivityScore 30 = 100
   \<and> calculateSocialInteractionScore 60 = 100"
  using calculateSleepScore_range [of x] calculatePhysicalActivityScore_range [of x]
    calculateSocialInteractionScore_range [of x]
    calculateSleepScore_mono calculatePhysicalActivityScore_mono
    calculateSocialInteractionScore_mono score_anchors
  by simp

section \<open>The running score\<close>

lemma currentScores_saveScores [simp]:
  "currentScores (saveScores env s d st) = currentScores st"
  by (simp add: saveScores_def)

lemma currentScores_syncToDatabase [simp]:
  "currentScores (syncToDatabase env s d st) = currentScores st"
  by (simp add: syncToDatabase_def Let_def)

text \<open>
  The current score after \<open>updateScores\<close>, written out: the three dimensions are smoothed
  against the baseline when there is one and are today's scores otherwise, and \<open>overall\<close>
  is computed from the three new dimensions.
\<close>

lemma currentScores_updateScores:
  "currentScores (updateScores env metrics st) =
     (let todayScores = calculateDailyScores (todayString env) metrics;
          s = (case (if isUsingSampleData st then None else currentScores st) of
                 Some b \<Rightarrow> (0.3 * sleep todayScores + 0.7 * sleep b,
                            0.3 * physicalActivity todayScores + 0.7 * physicalActivity b,
                            0.3 * socialInteraction todayScores + 0.7 * socialInteraction b)
               | None \<Rightarrow> (sleep todayScores, physicalActivity todayScores,
                           socialInteraction todayScores))
      in Some \<lparr> sleep = fst s, physicalActivity = fst (snd s), socialInteraction = snd (snd s),
                overall = (fst s + fst (snd s) + snd (snd s)) / 3,
                lastUpdated = currentTime env \<rparr>)"
  by (simp add: updateScores_def Let_def calculateOverallScore_def
       calculateExponentiallyWeightedScore_def split: option.splits)

text \<open>
  Claim C3. The smoothing is \<open>newCurrent = 0.3 * todayScore + 0.7 * previousCurrent\<close>; with
  previous 50 and today 80 it gives exactly 59. \<open>updateScores\<close> applies it to each of the
  three dimensions on its own when a previous current score exists, and takes today's
  scores as they are when none exists (no stored score yet, or only the sample data).
\<close>

theorem smoothing_per_dimension:
  "calculateExponentiallyWeightedScore previousCurrent todayScore 0.3
     = 0.3 * todayScore + 0.7 * previousCurrent
   \<and> calculateExponentiallyWeightedScore 50 80 0.3 = 59
   \<and> (\<exists>new.
        currentScores (updateScores env metrics
          (st\<lparr> currentScores := Some prev, isUsingSampleData := False \<rparr>)) = Some new
        \<and> sleep new = 0.3 * calculateSleepScore (sleepHours metrics) + 0.7 * sleep prev
        \<and> physicalActivity new =
            0.3 * calculatePhysicalActivityScore (physicalActivityMinutes metrics)
            + 0.7 * physicalActivity prev
        \<and> socialInteraction new =
            0.3 * calculateSocialInteractionScore (socialInteractionMinutes metrics)
            + 0.7 * socialInteraction prev)
   \<and> (\<exists>new.
        currentScores (updateScores env metrics (st\<lparr> currentScores := None \<rparr>)) = Some new
        \<and> sleep new = calculateSleepScore (sleepHours metrics)
        \<and> physicalActivity new = calculatePhysicalActivityScore (physicalActivityMinutes metrics)
        \<and> socialInteraction new =
            calculateSocialInteractionScore (socialInteractionMinutes metrics))
   \<and> (\<exists>new.
        currentScores (updateScores env metrics (st\<lparr> isUsingSampleData := True \<rparr>)) = Some new
        \<and> sleep new = calculateSleepScore (sleepHours metrics)
        \<and> physicalActivity new = calculatePhysicalActivityScore (physicalActivityMinutes metrics)
        \<and> socialInteraction new =
            calculateSocialInteractionScore (socialInteractionMinutes metrics))"
  by (simp add: currentScores_updateScores calculateDailyScores_def
        calculateExponentiallyWeightedScore_def)

section \<open>The conversation classifier\<close>

lemma length_sliceLast [simp]: "length (sliceLast n xs) = min n (length xs)"
  by (simp add: sliceLast_def)

lemma sliceLast_short [simp]: "length xs \<le> n \<Longrightarrow> sliceLast n xs = xs"
  by (simp add: sliceLast_def)

lemma windowMean_replicate [simp]: "0 < n \<Longrightarrow> windowMean (replicate n c) = c"
  by (simp add: windowMean_def sum_list_replicate)

lemma windowVariance_replicate [simp]: "0 < n \<Longrightarrow> windowVariance (replicate n c) = 0"
  by (simp add: windowVariance_def sum_list_replicate map_replicate_const)

lemma windowStd_replicate [simp]: "0 < n \<Longrightarrow> windowStd (replicate n c) = 0"
  by (simp add: windowStd_def)

text \<open>
  Claim C10. For every audio history with at least 20 samples, \<open>detectConversation\<close>
  gives \<open>conversation\<close> exactly when the mean level of the window (the last 50 samples)
  is at least 45, and for a mean in [30, 45) it gives \<open>talking\<close> whatever the peak rate
  and the standard deviation are: the test on peak rate and deviation never decides.
\<close>

theorem detectConversation_conversation_iff:
  assumes "20 \<le> length sharedAudioHistory"
  shows "(detectConversation sharedAudioHistory conversationState = Conversation
            \<longleftrightarrow> windowMean (sliceLast 50 sharedAudioHistory) \<ge> 45)
         \<and> (30 \<le> windowMean (sliceLast 50 sharedAudioHistory)
              \<and> windowMean (sliceLast 50 sharedAudioHistory) < 45
            \<longrightarrow> detectConversation sharedAudioHistory conversationState = Talking)"
  using assms by (auto simp: detectConversation_def Let_def)

theorem detectConversation_conversation_iff_witness:
  "20 \<le> length (replicate 20 (50::real))
   \<and> detectConversation (replicate 20 50) Silent = Conversation
   \<and> windowMean (sliceLast 50 (replicate 20 50)) \<ge> 45
   \<and> 20 \<le> length (replicate 20 (40::real))
   \<and> 30 \<le> windowMean (sliceLast 50 (replicate 20 40))
   \<and> windowMean (sliceLast 50 (replicate 20 40)) < 45
   \<and> detectConversation (replicate 20 40) Silent = Talking"
  using detectConversation_conversation_iff [of "replicate 20 50" Silent]
    detectConversation_conversation_iff [of "replicate 20 40" Silent]
  by simp

section \<open>The activity classifier\<close>

subsection \<open>The inactivity counter under the sleeping rule\<close>

text \<open>
  A tick that the sleeping rule decides: ten samples of constant magnitude 1.2 (no
  spread, but 0.2 away from gravity, so the first stationary rule does not apply), no
  speed samples, and 31 seconds of inactivity so far.
\<close>

definition sleepingRuleMonitor :: ActivityMonitor where
  "sleepingRuleMonitor =
     \<lparr> accelHistoryRef = replicate 10 1.2, speedHistoryRef = [], gpsAccuracy = 999,
       inactiveTimeRef = 31, currentActivity = Stationary, activityConfidence = 55,
       inactiveTime = 31, activityHistoryRef = [] \<rparr>"

text \<open>
  Claim C7 says that the stationary and sleeping rules increment the inactivity counter
  and the locomotion rules reset it. On the tick above the sleeping rule fires and the
  counter keeps its value 31 instead of becoming 32: the sleeping branch is the only
  branch of \<open>classifyActivity\<close> that does not write the counter.
\<close>

theorem classifyActivity_sleeping_rule_keeps_counter:
  "currentActivity (classifyActivity now sleepingRuleMonitor) = Sleeping
   \<and> inactiveTimeRef sleepingRuleMonitor = 31
   \<and> inactiveTimeRef (classifyActivity now sleepingRuleMonitor) = 31
   \<and> inactiveTimeRef (classifyActivity now sleepingRuleMonitor)
       \<noteq> inactiveTimeRef sleepingRuleMonitor + 1"
  by (simp add: classifyActivity_def sleepingRuleMonitor_def Let_def)

subsection \<open>The first stationary rule\<close>

lemma sqrt_2500th: "sqrt (1 / 2500) = 1 / 50"
  by (rule real_sqrt_unique) (simp_all add: power2_eq_square)

text \<open>
  A window with the statistics of claim C9: ten acceleration samples alternating between
  1.03 and 1.07 (mean 1.05, standard deviation 0.02) and ten speed samples of mean 0.1.
\<close>

definition stillWindowMonitor :: ActivityMonitor where
  "stillWindowMonitor =
     \<lparr> accelHistoryRef = [1.03, 1.07, 1.03, 1.07, 1.03, 1.07, 1.03, 1.07, 1.03, 1.07],
       speedHistoryRef = [1, 0, 0, 0, 0, 0, 0, 0, 0, 0], gpsAccuracy = 10,
       inactiveTimeRef = 0, currentActivity = Unknown, activityConfidence = 0,
       inactiveTime = 0, activityHistoryRef = [] \<rparr>"

lemma stillWindowMonitor_stats:
  "windowMean (sliceLast 30 (accelHistoryRef stillWindowMonitor)) = 1.05"
  "windowStd (sliceLast 30 (accelHistoryRef stillWindowMonitor)) = 0.02"
  "windowMean (sliceLast 10 (speedHistoryRef stillWindowMonitor)) = 0.1"
  by (simp_all add: stillWindowMonitor_def windowMean_def windowStd_def windowVariance_def
       power2_eq_square sqrt_2500th)

text \<open>
  Claim C9 as stated fails: on that window the label is \<open>stationary\<close>, but the confidence
  is \<open>80 + (1 - 0.02 * 10) * 15 = 92\<close>, which is below the cap 95 of the rule.
\<close>

theorem classifyActivity_still_window_not_capped:
  "10 \<le> length (sliceLast 30 (accelHistoryRef stillWindowMonitor))
   \<and> windowStd (sliceLast 30 (accelHistoryRef stillWindowMonitor)) = 0.02
   \<and> windowMean (sliceLast 10 (speedHistoryRef stillWindowMonitor)) = 0.1
   \<and> \<bar>windowMean (sliceLast 30 (accelHistoryRef stillWindowMonitor)) - 1\<bar> = 0.05
   \<and> currentActivity (classifyActivity 0 stillWindowMonitor) = Stationary
   \<and> activityConfidence (classifyActivity 0 stillWindowMonitor) = 92
   \<and> activityConfidence (classifyActivity 0 stillWindowMonitor) \<noteq> 95"
proof -
  have "classifyActivity 0 stillWindowMonitor =
          stillWindowMonitor\<lparr> inactiveTimeRef := 1, currentActivity := Stationary,
            activityConfidence := 92, inactiveTime := 1,
            activityHistoryRef :=
              [\<lparr> timestamp = 0, activity = Stationary, confidence = 92 \<rparr>] \<rparr>"
    unfolding classifyActivity_def Let_def
    by (simp add: stillWindowMonitor_stats) (simp add: stillWindowMonitor_def)
  then show ?thesis
    by (simp add: stillWindowMonitor_stats) (simp add: stillWindowMonitor_def)
qed

text \<open>
  Claim C9, amended. For an acceleration window of at least ten samples with standard
  deviation 0.02 and a mean 0.05 away from gravity, and a speed window of mean 0.1, the
  classifier gives \<open>stationary\<close> with confidence 92 (the cap 95 is not reached) and
  increments the inactivity counter.
\<close>

theorem classifyActivity_still_window:
  assumes "10 \<le> length (accelHistoryRef m)"
    and "windowStd (sliceLast 30 (accelHistoryRef m)) = 0.02"
    and "speedHistoryRef m \<noteq> []"
    and "windowMean (sliceLast 10 (speedHistoryRef m)) = 0.1"
    and "\<bar>windowMean (sliceLast 30 (accelHistoryRef m)) - 1\<bar> = 0.05"
  shows "currentActivity (classifyActivity now m) = Stationary
         \<and> activityConfidence (classifyActivity now m) = 92
         \<and> inactiveTimeRef (classifyActivity now m) = inactiveTimeRef m + 1"
proof -
  have len: "\<not> min 30 (length (accelHistoryRef m)) < 10"
    using assms(1) by simp
  show ?thesis
    using assms(2-5) len by (simp add: classifyActivity_def Let_def)
qed

theorem classifyActivity_still_window_witness:
  "10 \<le> length (accelHistoryRef stillWindowMonitor)
   \<and> windowStd (sliceLast 30 (accelHistoryRef stillWindowMonitor)) = 0.02
   \<and> speedHistoryRef stillWindowMonitor \<noteq> []
   \<and> windowMean (sliceLast 10 (speedHistoryRef stillWindowMonitor)) = 0.1
   \<and> \<bar>windowMean (sliceLast 30 (accelHistoryRef stillWindowMonitor)) - 1\<bar> = 0.05
   \<and> currentActivity (classifyActivity 7 stillWindowMonitor) = Stationary
   \<and> activityConfidence (classifyActivity 7 stillWindowMonitor) = 92
   \<and> inactiveTimeRef (classifyActivity 7 stillWindowMonitor) = 1"
proof -
  have a: "10 \<le> length (accelHistoryRef stillWindowMonitor)"
    and b: "speedHistoryRef stillWindowMonitor \<noteq> []"
    and c: "inactiveTimeRef stillWindowMonitor = 0"
    by (simp_all add: stillWindowMonitor_def)
  have d: "\<bar>windowMean (sliceLast 30 (accelHistoryRef stillWindowMonitor)) - 1\<bar> = 0.05"
    by (simp add: stillWindowMonitor_stats)
  show ?thesis
    using classifyActivity_still_window [OF a stillWindowMonitor_stats(2) b
        stillWindowMonitor_stats(3) d, of 7]
      a b c d stillWindowMonitor_stats
    by simp
qed

section \<open>Retention of the event histories\<close>

definition emptyAggregator :: WellbeingAggregator where
  "emptyAggregator = \<lparr> activityHistory = [], conversationHistory = [] \<rparr>"

definition sleepAt :: "Date \<Rightarrow> ActivityData" where
  "sleepAt t = \<lparr> timestamp = t, activity = Sleeping, confidence = 90 \<rparr>"

definition walkAt :: "Date \<Rightarrow> ActivityData" where
  "walkAt t = \<lparr> timestamp = t, activity = Walking, confidence = 80 \<rparr>"

definition talkAt :: "Date \<Rightarrow> real \<Rightarrow> ConversationData" where
  "talkAt t secs = \<lparr> timestamp = t, state = Talking, duration = secs \<rparr>"

text \<open>
  Two zones: UTC, and a zone one hour east of UTC whose clocks go back to UTC at the
  start of day 5 (the end of daylight saving). An hour of local time occurs twice there;
  it is read with the earlier offset.
\<close>

definition utcZone :: TimeZone where
  "utcZone = \<lparr> offsetAtUTC = (\<lambda>_. 0), offsetAtLocal = (\<lambda>_. 0) \<rparr>"

definition autumnZone :: TimeZone where
  "autumnZone =
     \<lparr> offsetAtUTC = (\<lambda>t. if t < 5 * msPerDay then msPerHour else 0),
       offsetAtLocal = (\<lambda>l. if l < 5 * msPerDay + msPerHour then msPerHour else 0) \<rparr>"

text \<open>
  Claim C8 as stated fails: the histories are pruned when an entry is added, not when
  they are read. An activity recorded at time 0 into an empty aggregator is still
  returned by \<open>getActivityHistory\<close> eight days later, when the retention window starts at
  day 1; the entry is older than the window by more than any daylight-saving shift.
\<close>

theorem stale_entry_at_read:
  "getActivityHistory (addActivity utcZone 0 (walkAt 0) emptyAggregator) = [walkAt 0]
   \<and> timestamp (walkAt 0) < cutoff utcZone (8 * msPerDay)
   \<and> cutoff utcZone (8 * msPerDay) = 8 * msPerDay - 7 * msPerDay
   \<and> timestamp (walkAt 0) < 8 * msPerDay - 7 * msPerDay - msPerHour"
  by (simp add: getActivityHistory_def addActivity_def emptyAggregator_def walkAt_def
        cutoff_def setDateBack_def utcZone_def msPerDay_def msPerHour_def
        MAX_HISTORY_DAYS_def)

text \<open>
  Claim C8, amended. Right after \<open>addActivity\<close> at time \<open>now\<close> the activity history has no
  entry before the cutoff, and right after \<open>addConversation\<close> the same holds of the
  conversation history. The cutoff is the date seven local calendar days before \<open>now\<close>
  at the same time of day: \<open>now\<close> minus seven times 24 hours, shifted by the change of
  the zone's offset between the two dates (none without a daylight-saving change in
  between). The reads return the histories as they are, without pruning.
\<close>

theorem histories_pruned_on_add:
  "(\<forall>x \<in> set (activityHistory (addActivity zone now a agg)). cutoff zone now \<le> timestamp x)
   \<and> (\<forall>y \<in> set (conversationHistory (addConversation zone now c agg)).
         cutoff zone now \<le> timestamp y)
   \<and> cutoff zone now =
       now - 7 * msPerDay
         + (offsetAtUTC zone now
            - offsetAtLocal zone (now + offsetAtUTC zone now - 7 * msPerDay))
   \<and> getActivityHistory agg = activityHistory agg
   \<and> getConversationHistory agg = conversationHistory agg"
  by (simp add: addActivity_def addConversation_def cutoff_def setDateBack_def Let_def
        MAX_HISTORY_DAYS_def getActivityHistory_def getConversationHistory_def)

text \<open>
  In UTC the cutoff at day 10 is day 3: of the entries of day 0 and day 4 the first is
  dropped. In the zone whose clocks went back on day 5 the cutoff at day 10 is an hour
  before day 3: an entry seven days and 30 minutes old is kept, one seven days and 90
  minutes old is dropped.
\<close>

theorem histories_pruned_on_add_witness:
  "cutoff utcZone (10 * msPerDay) = 3 * msPerDay
   \<and> activityHistory (addActivity utcZone (10 * msPerDay) (walkAt (10 * msPerDay))
       (emptyAggregator\<lparr> activityHistory := [walkAt 0, walkAt (4 * msPerDay)] \<rparr>))
     = [walkAt (4 * msPerDay), walkAt (10 * msPerDay)]
   \<and> list_all (\<lambda>x. cutoff utcZone (10 * msPerDay) \<le> timestamp x)
        (activityHistory (addActivity utcZone (10 * msPerDay) (walkAt (10 * msPerDay))
           (emptyAggregator\<lparr> activityHistory := [walkAt 0, walkAt (4 * msPerDay)] \<rparr>)))
   \<and> conversationHistory (addConversation utcZone (10 * msPerDay) (talkAt (10 * msPerDay) 60)
       (emptyAggregator\<lparr> conversationHistory := [talkAt 0 30] \<rparr>))
     = [talkAt (10 * msPerDay) 60]
   \<and> cutoff autumnZone (10 * msPerDay) = 3 * msPerDay - msPerHour
   \<and> activityHistory (addActivity autumnZone (10 * msPerDay) (walkAt (10 * msPerDay))
       (emptyAggregator\<lparr> activityHistory :=
          [walkAt (3 * msPerDay - 5400000), walkAt (3 * msPerDay - 1800000)] \<rparr>))
     = [walkAt (3 * msPerDay - 1800000), walkAt (10 * msPerDay)]"
  using histories_pruned_on_add [of utcZone "10 * msPerDay" "walkAt (10 * msPerDay)"
      "emptyAggregator\<lparr> activityHistory := [walkAt 0, walkAt (4 * msPerDay)] \<rparr>"
      "talkAt (10 * msPerDay) 60"]
    histories_pruned_on_add [of autumnZone "10 * msPerDay" "walkAt (10 * msPerDay)"
      "emptyAggregator\<lparr> activityHistory :=
          [walkAt (3 * msPerDay - 5400000), walkAt (3 * msPerDay - 1800000)] \<rparr>"
      "talkAt (10 * msPerDay) 60"]
  by (simp add: addActivity_def addConversation_def emptyAggregator_def walkAt_def talkAt_def
        cutoff_def setDateBack_def Let_def utcZone_def autumnZone_def
        MAX_HISTORY_DAYS_def msPerDay_def msPerHour_def)

section \<open>Sleep hours from the activity events\<close>

text \<open>
  Claim C6 as stated fails. With both events on one calendar day in the order given,
  the gap from 23:00 to 06:00 is negative and the result is -17 hours. With the walking
  event at 06:00 of the next morning, the filter on the queried day keeps one event only
  and the result is 0, for either day. In no reading is it 7.
\<close>

theorem sleep_23_to_06_not_seven:
  "calculateSleepHoursFromActivities 0 [sleepAt (23 * msPerHour), walkAt (6 * msPerHour)] 0
     = - 17
   \<and> calculateSleepHoursFromActivities 0
        [sleepAt (23 * msPerHour), walkAt (msPerDay + 6 * msPerHour)] 0 = 0
   \<and> calculateSleepHoursFromActivities 0
        [sleepAt (23 * msPerHour), walkAt (msPerDay + 6 * msPerHour)] msPerDay = 0"
  by (simp add: calculateSleepHoursFromActivities_def Let_def sleepAt_def walkAt_def
        startOfDay_def endOfDay_def getHours_def msPerDay_def msPerHour_def)

text \<open>
  Claim C6, amended. For two events of which the first lies on the queried day, is
  labelled \<open>sleeping\<close> with confidence at least 70 and falls at an hour from 21 to 23 or
  from 0 to 8: when the second event lies on the queried day too, the sleep hours are
  the gap between the two timestamps in hours (7 for 01:00 and 08:00); when the second
  event lies after the end of that day, the sleep hours are 0.
\<close>

theorem sleep_hours_two_events:
  assumes "activity e1 = Sleeping" and "confidence e1 \<ge> 70"
    and "getHours tz (timestamp e1) \<ge> 21 \<or> getHours tz (timestamp e1) \<le> 8"
    and "startOfDay tz d \<le> timestamp e1" and "timestamp e1 \<le> endOfDay tz d"
  shows "(startOfDay tz d \<le> timestamp e2 \<and> timestamp e2 \<le> endOfDay tz d \<longrightarrow>
            calculateSleepHoursFromActivities tz [e1, e2] d
              = real_of_int (timestamp e2 - timestamp e1) / 1000 / 3600)
         \<and> (endOfDay tz d < timestamp e2 \<longrightarrow>
            calculateSleepHoursFromActivities tz [e1, e2] d = 0)"
  using assms by (auto simp: calculateSleepHoursFromActivities_def Let_def)

theorem sleep_hours_two_events_witness:
  "activity (sleepAt (1 * msPerHour)) = Sleeping \<and> confidence (sleepAt (1 * msPerHour)) \<ge> 70
   \<and> getHours 0 (timestamp (sleepAt (1 * msPerHour))) = 1
   \<and> startOfDay 0 0 \<le> timestamp (sleepAt (1 * msPerHour))
   \<and> timestamp (sleepAt (1 * msPerHour)) \<le> endOfDay 0 0
   \<and> startOfDay 0 0 \<le> timestamp (walkAt (8 * msPerHour))
   \<and> timestamp (walkAt (8 * msPerHour)) \<le> endOfDay 0 0
   \<and> calculateSleepHoursFromActivities 0 [sleepAt (1 * msPerHour), walkAt (8 * msPerHour)] 0 = 7
   \<and> endOfDay 0 0 < timestamp (walkAt (msPerDay + 6 * msPerHour))
   \<and> calculateSleepHoursFromActivities 0
        [sleepAt (1 * msPerHour), walkAt (msPerDay + 6 * msPerHour)] 0 = 0"
  using sleep_hours_two_events [of "sleepAt (1 * msPerHour)" 0 0 "walkAt (8 * msPerHour)"]
    sleep_hours_two_events [of "sleepAt (1 * msPerHour)" 0 0 "walkAt (msPerDay + 6 * msPerHour)"]
  by (simp add: sleepAt_def walkAt_def startOfDay_def endOfDay_def getHours_def
        msPerDay_def msPerHour_def)

section \<open>The periodic update\<close>

lemma storedScores_updateScores:
  "setItemOk env STORAGE_KEY \<Longrightarrow>
     storedScores (updateScores env m st) = currentScores (updateScores env m st)"
  by (simp add: updateScores_def Let_def saveScores_def syncToDatabase_def)

lemma dbScore_updateScores:
  "sessionUser env \<Longrightarrow> upsertOk env ''wellbeing_scores'' \<Longrightarrow>
     dbScore (updateScores env m st) = currentScores (updateScores env m st)"
  by (simp add: updateScores_def Let_def saveScores_def syncToDatabase_def)

text \<open>
  Claim C5. Let \<open>m\<close> be the metrics the aggregator computes for today. When all three are
  zero the periodic update changes nothing: the scores in memory, in the local store and
  in the remote tables stay as they were. The state changes only when at least one metric
  is strictly positive; the update is then the one of \<open>updateScores\<close>, which writes the
  new current score to the local store and, with a session, to the remote table.
\<close>

theorem update_committed_only_with_positive_metric:
  assumes "calculateTodayMetrics tz (currentTime env) (aggregator cs) = m"
  shows "(sleepHours m = 0 \<and> physicalActivityMinutes m = 0 \<and> socialInteractionMinutes m = 0
            \<longrightarrow> updateWellbeingScores tz env cs = cs)
         \<and> (updateWellbeingScores tz env cs \<noteq> cs
            \<longrightarrow> sleepHours m > 0 \<or> physicalActivityMinutes m > 0 \<or> socialInteractionMinutes m > 0)
         \<and> (sleepHours m > 0 \<or> physicalActivityMinutes m > 0 \<or> socialInteractionMinutes m > 0
            \<longrightarrow> wellbeing (updateWellbeingScores tz env cs) = updateScores env m (wellbeing cs)
                \<and> (setItemOk env STORAGE_KEY \<longrightarrow>
                     storedScores (wellbeing (updateWellbeingScores tz env cs))
                       = currentScores (wellbeing (updateWellbeingScores tz env cs)))
                \<and> (sessionUser env \<and> upsertOk env ''wellbeing_scores'' \<longrightarrow>
                     dbScore (wellbeing (updateWellbeingScores tz env cs))
                       = currentScores (wellbeing (updateWellbeingScores tz env cs))))"
  using assms
  by (auto simp: updateWellbeingScores_def Let_def storedScores_updateScores dbScore_updateScores)

definition exampleEnv :: Env where
  "exampleEnv =
     \<lparr> todayString = ''1970-01-01'', currentTime = 12 * msPerHour, sessionUser = True,
       setItemOk = (\<lambda>_. True), upsertOk = (\<lambda>_. True) \<rparr>"

definition storedScore :: WellbeingScore where
  "storedScore =
     \<lparr> sleep = 80, physicalActivity = 70, socialInteraction = 60, overall = 70,
       lastUpdated = 0 \<rparr>"

text \<open>A day without events, and the same day with ten minutes of talking before noon.\<close>

definition quietDay :: CollectionState where
  "quietDay =
     \<lparr> aggregator = emptyAggregator,
       wellbeing =
         \<lparr> currentScores = Some storedScore, dailyScores = [], isUsingSampleData = False,
           storedScores = Some storedScore, storedDaily = Some [],
           dbScore = Some storedScore, dbDaily = Map.empty \<rparr>,
       lastUpdate = 0 \<rparr>"

definition talkativeDay :: CollectionState where
  "talkativeDay =
     quietDay\<lparr> aggregator :=
       emptyAggregator\<lparr> conversationHistory := [talkAt (11 * msPerHour) 600] \<rparr> \<rparr>"

definition zeroMetrics :: WellbeingMetrics where
  "zeroMetrics = \<lparr> sleepHours = 0, physicalActivityMinutes = 0, socialInteractionMinutes = 0 \<rparr>"

lemma quietDay_metrics:
  "calculateTodayMetrics 0 (currentTime exampleEnv) (aggregator quietDay) = zeroMetrics"
  by (simp add: calculateTodayMetrics_def Let_def quietDay_def emptyAggregator_def
        zeroMetrics_def calculateSleepHoursFromActivities_def
        calculatePhysicalActivityMinutesFromActivities_def
        calculateSocialInteractionMinutesFromConversations_def)

lemma talkativeDay_metrics:
  "calculateTodayMetrics 0 (currentTime exampleEnv) (aggregator talkativeDay)
     = zeroMetrics\<lparr> socialInteractionMinutes := 10 \<rparr>"
  by (simp add: calculateTodayMetrics_def Let_def talkativeDay_def quietDay_def
        emptyAggregator_def zeroMetrics_def talkAt_def exampleEnv_def
        calculateSleepHoursFromActivities_def
        calculatePhysicalActivityMinutesFromActivities_def
        calculateSocialInteractionMinutesFromConversations_def
        startOfDay_def endOfDay_def msPerDay_def msPerHour_def)

theorem update_committed_only_with_positive_metric_witness:
  "calculateTodayMetrics 0 (currentTime exampleEnv) (aggregator quietDay) = zeroMetrics
   \<and> sleepHours zeroMetrics = 0 \<and> physicalActivityMinutes zeroMetrics = 0
   \<and> socialInteractionMinutes zeroMetrics = 0
   \<and> updateWellbeingScores 0 exampleEnv quietDay = quietDay
   \<and> storedScores (wellbeing (updateWellbeingScores 0 exampleEnv quietDay)) = Some storedScore
   \<and> calculateTodayMetrics 0 (currentTime exampleEnv) (aggregator talkativeDay)
       = zeroMetrics\<lparr> socialInteractionMinutes := 10 \<rparr>
   \<and> updateWellbeingScores 0 exampleEnv talkativeDay \<noteq> talkativeDay
   \<and> socialInteractionMinutes (zeroMetrics\<lparr> socialInteractionMinutes := 10 \<rparr>) > 0
   \<and> wellbeing (updateWellbeingScores 0 exampleEnv talkativeDay)
       = updateScores exampleEnv (zeroMetrics\<lparr> socialInteractionMinutes := 10 \<rparr>)
           (wellbeing talkativeDay)
   \<and> setItemOk exampleEnv STORAGE_KEY
   \<and> storedScores (wellbeing (updateWellbeingScores 0 exampleEnv talkativeDay))
       = currentScores (wellbeing (updateWellbeingScores 0 exampleEnv talkativeDay))"
proof -
  have changed: "updateWellbeingScores 0 exampleEnv talkativeDay \<noteq> talkativeDay"
  proof
    assume "updateWellbeingScores 0 exampleEnv talkativeDay = talkativeDay"
    then have "lastUpdate (updateWellbeingScores 0 exampleEnv talkativeDay)
                 = lastUpdate talkativeDay"
      by simp
    then show False
      by (simp add: updateWellbeingScores_def Let_def talkativeDay_metrics zeroMetrics_def)
         (simp add: talkativeDay_def quietDay_def exampleEnv_def msPerHour_def)
  qed
  have stored: "storedScores (wellbeing quietDay) = Some storedScore"
    by (simp add: quietDay_def)
  have ok: "setItemOk exampleEnv STORAGE_KEY"
    by (simp add: exampleEnv_def)
  show ?thesis
    using update_committed_only_with_positive_metric [OF quietDay_metrics]
      update_committed_only_with_positive_metric [OF talkativeDay_metrics]
      quietDay_metrics talkativeDay_metrics changed stored ok
    by (auto simp: zeroMetrics_def)
qed

section \<open>The daily score list\<close>

lemma dailyScores_saveScores [simp]:
  "dailyScores (saveScores env s d st) = dailyScores st"
  by (simp add: saveScores_def)

lemma dailyScores_syncToDatabase [simp]:
  "dailyScores (syncToDatabase env s d st) = dailyScores st"
  by (simp add: syncToDatabase_def Let_def)

lemma dailyScores_updateScores:
  "dailyScores (updateScores env metrics st) =
     (let baselineDaily = (if isUsingSampleData st then [] else dailyScores st);
          todayScores = calculateDailyScores (todayString env) metrics;
          existingIndex = findIndex (\<lambda>d. date d = date todayScores) baselineDaily
      in sortNewestFirst
           (if existingIndex \<ge> 0 then baselineDaily[nat existingIndex := todayScores]
            else (let pushed = baselineDaily @ [todayScores]
                  in if length pushed > 30 then tl pushed else pushed)))"
  by (simp add: updateScores_def Let_def)

lemma findIndex_found:
  "0 \<le> findIndex P xs \<Longrightarrow> nat (findIndex P xs) < length xs \<and> P (xs ! nat (findIndex P xs))"
proof (induction xs)
  case Nil
  then show ?case by simp
next
  case (Cons x xs)
  show ?case
  proof (cases "P x")
    case True
    then show ?thesis by simp
  next
    case False
    with Cons.prems have nonneg: "0 \<le> findIndex P xs"
      by (simp add: Let_def split: if_splits)
    with Cons.IH have "nat (findIndex P xs) < length xs \<and> P (xs ! nat (findIndex P xs))"
      by simp
    with False nonneg show ?thesis
      by (simp add: Let_def nat_add_distrib)
  qed
qed

lemma findIndex_negative: "findIndex P xs < 0 \<Longrightarrow> \<forall>x \<in> set xs. \<not> P x"
  by (induction xs) (auto simp: Let_def split: if_splits)

lemma findIndex_none: "\<forall>x \<in> set xs. \<not> P x \<Longrightarrow> findIndex P xs = - 1"
  by (induction xs) (auto simp: Let_def)

lemma length_sortNewestFirst [simp]: "length (sortNewestFirst xs) = length xs"
  by (simp add: sortNewestFirst_def)

lemma set_sortNewestFirst [simp]: "set (sortNewestFirst xs) = set xs"
  by (simp add: sortNewestFirst_def)

lemma sorted_sortNewestFirst: "sorted (rev (map date (sortNewestFirst xs)))"
  by (simp add: sortNewestFirst_def rev_map)

lemma sortNewestFirst_id: "sorted (rev (map date xs)) \<Longrightarrow> sortNewestFirst xs = xs"
  by (simp add: sortNewestFirst_def rev_map sort_key_id_if_sorted)

lemma distinct_dates_sortNewestFirst:
  "distinct (map date (sortNewestFirst xs)) = distinct (map date xs)"
  by (simp add: distinct_map) (simp add: sortNewestFirst_def)

text \<open>
  Three parts of claim C2 hold of every call: the list is sorted newest-first; it keeps
  one entry per date when it had one entry per date before; and it has at most 30
  entries when it had at most 30 before.
\<close>

lemma dailyScores_sorted_after_update:
  "sorted (rev (map date (dailyScores (updateScores env metrics st))))"
  unfolding dailyScores_updateScores Let_def by (rule sorted_sortNewestFirst)

lemma dailyScores_length_after_update:
  assumes "\<not> isUsingSampleData st \<longrightarrow> length (dailyScores st) \<le> 30"
  shows "length (dailyScores (updateScores env metrics st)) \<le> 30"
  using assms by (auto simp: dailyScores_updateScores Let_def)

lemma dailyScores_distinct_after_update:
  assumes "distinct (map date (dailyScores st))"
  shows "distinct (map date (dailyScores (updateScores env metrics st)))"
proof -
  define base where "base = (if isUsingSampleData st then [] else dailyScores st)"
  define t where "t = calculateDailyScores (todayString env) metrics"
  define i where "i = findIndex (\<lambda>d. date d = date t) base"
  have db: "distinct (map date base)"
    using assms by (simp add: base_def)
  have eq: "dailyScores (updateScores env metrics st) =
              sortNewestFirst
                (if i \<ge> 0 then base[nat i := t]
                 else if length (base @ [t]) > 30 then tl (base @ [t]) else base @ [t])"
    unfolding dailyScores_updateScores Let_def base_def t_def i_def by (rule refl)
  have "distinct (map date
          (if i \<ge> 0 then base[nat i := t]
           else if length (base @ [t]) > 30 then tl (base @ [t]) else base @ [t]))"
  proof (cases "0 \<le> i")
    case True
    then have "nat i < length base" and "date (base ! nat i) = date t"
      using findIndex_found [of "\<lambda>d. date d = date t" base] by (simp_all add: i_def)
    then have "map date (base[nat i := t]) = map date base"
      by (simp add: map_update list_update_same_conv)
    with True db show ?thesis by simp
  next
    case False
    then have "\<forall>x \<in> set base. date x \<noteq> date t"
      using findIndex_negative [of "\<lambda>d. date d = date t" base] by (simp add: i_def)
    then have "distinct (map date (base @ [t]))"
      using db by auto
    then have "distinct (map date (tl (base @ [t])))"
      by (simp add: map_tl distinct_tl)
    with False \<open>distinct (map date (base @ [t]))\<close> show ?thesis
      by simp
  qed
  then show ?thesis
    by (simp only: eq distinct_dates_sortNewestFirst)
qed

text \<open>
  The cap. When the list is full and today has no entry yet, \<open>shift()\<close> removes the first
  element of the list after today's entry was pushed to its end. The list is kept
  newest-first, so the first element is the newest of the previous days.
\<close>

lemma dailyScores_cap_drops_first:
  assumes "\<not> isUsingSampleData st" and "30 \<le> length (dailyScores st)"
    and "\<forall>x \<in> set (dailyScores st). date x \<noteq> todayString env"
  shows "dailyScores (updateScores env metrics st) =
           sortNewestFirst (tl (dailyScores st)
             @ [calculateDailyScores (todayString env) metrics])"
proof -
  have "findIndex (\<lambda>d. date d = todayString env) (dailyScores st) = - 1"
    using assms(3) by (intro findIndex_none) simp
  moreover have "dailyScores st \<noteq> []"
    using assms(2) by auto
  ultimately show ?thesis
    using assms(1,2)
    by (simp add: dailyScores_updateScores Let_def calculateDailyScores_def)
qed

definition dayScore :: "string \<Rightarrow> DailyWellbeingScores" where
  "dayScore d = \<lparr> sleep = 80, physicalActivity = 70, socialInteraction = 60, date = d \<rparr>"

definition januaryNewestFirst :: "string list" where
  "januaryNewestFirst =
     [''2024-01-30'', ''2024-01-29'', ''2024-01-28'', ''2024-01-27'', ''2024-01-26'',
      ''2024-01-25'', ''2024-01-24'', ''2024-01-23'', ''2024-01-22'', ''2024-01-21'',
      ''2024-01-20'', ''2024-01-19'', ''2024-01-18'', ''2024-01-17'', ''2024-01-16'',
      ''2024-01-15'', ''2024-01-14'', ''2024-01-13'', ''2024-01-12'', ''2024-01-11'',
      ''2024-01-10'', ''2024-01-09'', ''2024-01-08'', ''2024-01-07'', ''2024-01-06'',
      ''2024-01-05'', ''2024-01-04'', ''2024-01-03'', ''2024-01-02'', ''2024-01-01'']"

text \<open>
  The state after thirty days of use, one entry for each day from 1 to 30 January,
  newest first, and the environment of the next day.
\<close>

definition thirtyDays :: WellbeingState where
  "thirtyDays =
     \<lparr> currentScores = None, dailyScores = map dayScore januaryNewestFirst,
       isUsingSampleData = False, storedScores = None, storedDaily = None,
       dbScore = None, dbDaily = Map.empty \<rparr>"

definition day31Env :: Env where
  "day31Env =
     \<lparr> todayString = ''2024-01-31'', currentTime = 0, sessionUser = False,
       setItemOk = (\<lambda>_. True), upsertOk = (\<lambda>_. True) \<rparr>"

text \<open>
  Claim C2 says that the entries kept are those of the 30 most recent dates, the oldest
  being dropped at the cap. On the update of 31 January the list keeps 30 entries, but
  the entry dropped is that of 30 January, the newest of the previous days, and the
  oldest entry, 1 January, stays.
\<close>

theorem updateScores_drops_newest_previous_day:
  "map date (dailyScores thirtyDays) = januaryNewestFirst
   \<and> length (dailyScores thirtyDays) = 30
   \<and> map date (dailyScores (updateScores day31Env metrics thirtyDays))
       = ''2024-01-31'' # tl januaryNewestFirst
   \<and> ''2024-01-30'' \<notin> set (map date (dailyScores (updateScores day31Env metrics thirtyDays)))
   \<and> ''2024-01-01'' \<in> set (map date (dailyScores (updateScores day31Env metrics thirtyDays)))"
proof -
  have before: "map date (dailyScores thirtyDays) = januaryNewestFirst"
    by (simp add: thirtyDays_def dayScore_def januaryNewestFirst_def)
  have after: "map date (dailyScores (updateScores day31Env metrics thirtyDays))
                 = ''2024-01-31'' # tl januaryNewestFirst"
    by (simp add: dailyScores_updateScores Let_def thirtyDays_def day31Env_def
          calculateDailyScores_def januaryNewestFirst_def dayScore_def sortNewestFirst_def)
  have len: "length (dailyScores thirtyDays) = 30"
    by (simp add: thirtyDays_def januaryNewestFirst_def)
  show ?thesis
    unfolding after using before len by (simp add: januaryNewestFirst_def)
qed

section \<open>The overall score\<close>

subsection \<open>Rounding to one decimal\<close>

lemma toFixed1_eq:
  assumes "0 \<le> x" and "of_int n - 1 / 2 \<le> x * 10" and "x * 10 < of_int n + 1 / 2"
  shows "toFixed1 x = of_int n / 10"
proof -
  have "\<lfloor>x * 10 + 1 / 2\<rfloor> = n"
    using assms(2,3) by (intro floor_unique) linarith+
  with assms(1) show ?thesis
    by (simp add: toFixed1_def)
qed

lemma toFixed1_close: "\<bar>toFixed1 x - x\<bar> \<le> 1 / 20"
proof (cases "x < 0")
  case True
  define n where "n = \<lfloor>(- x) * 10 + 1 / 2\<rfloor>"
  have "of_int n \<le> (- x) * 10 + 1 / 2" and "(- x) * 10 + 1 / 2 < of_int n + 1"
    unfolding n_def by linarith+
  moreover have "toFixed1 x = - (of_int n / 10)"
    using True by (simp add: toFixed1_def n_def)
  ultimately show ?thesis by linarith
next
  case False
  define n where "n = \<lfloor>x * 10 + 1 / 2\<rfloor>"
  have "of_int n \<le> x * 10 + 1 / 2" and "x * 10 + 1 / 2 < of_int n + 1"
    unfolding n_def by linarith+
  moreover have "toFixed1 x = of_int n / 10"
    using False by (simp add: toFixed1_def n_def)
  ultimately show ?thesis by linarith
qed

lemma toFixed1_mean: "toFixed1 (521 / 6) = 434 / 5"
  using toFixed1_eq [of "521 / 6" 868] by simp

subsection \<open>The sine waves of the newest sample day\<close>

text \<open>
  Enclosures of \<open>sin 0.6\<close>, \<open>cos 0.4\<close> and \<open>sin 1.4\<close> from their Maclaurin polynomials and
  the remainder bound.
\<close>

lemma sin_06_bounds:
  "5633 / 10000 \<le> sin (3 / 5 :: real) \<and> sin (3 / 5 :: real) \<le> 5647 / 10000"
proof -
  have b: "\<bar>sin (3 / 5 :: real) - (\<Sum>m<5. sin_coeff m * (3 / 5) ^ m)\<bar>
             \<le> inverse (fact 5) * \<bar>3 / 5\<bar> ^ 5"
    by (rule Maclaurin_sin_bound)
  have s: "(\<Sum>m<5. sin_coeff m * (3 / 5 :: real) ^ m) = 141 / 250"
    by (simp add: eval_nat_numeral sin_coeff_Suc cos_coeff_Suc)
  have e: "inverse (fact 5) * \<bar>3 / 5 :: real\<bar> ^ 5 = 81 / 125000"
    by (simp add: eval_nat_numeral fact_numeral)
  have "\<bar>sin (3 / 5 :: real) - 141 / 250\<bar> \<le> 81 / 125000"
    using b unfolding s e .
  then show ?thesis by linarith
qed

lemma sin_14_bounds:
  "9853 / 10000 \<le> sin (7 / 5 :: real) \<and> sin (7 / 5 :: real) \<le> 9855 / 10000"
proof -
  have b: "\<bar>sin (7 / 5 :: real) - (\<Sum>m<9. sin_coeff m * (7 / 5) ^ m)\<bar>
             \<le> inverse (fact 9) * \<bar>7 / 5\<bar> ^ 9"
    by (rule Maclaurin_sin_bound)
  have s: "(\<Sum>m<9. sin_coeff m * (7 / 5 :: real) ^ m) = 55428401 / 56250000"
    by (simp add: eval_nat_numeral sin_coeff_Suc cos_coeff_Suc)
  have e: "inverse (fact 9) * \<bar>7 / 5 :: real\<bar> ^ 9 \<le> 6 / 100000"
    by (simp add: eval_nat_numeral fact_numeral)
  have "\<bar>sin (7 / 5 :: real) - 55428401 / 56250000\<bar> \<le> 6 / 100000"
    using b e unfolding s by (rule order_trans)
  then show ?thesis by linarith
qed

lemma cos_04_bounds:
  "9189 / 10000 \<le> cos (2 / 5 :: real) \<and> cos (2 / 5 :: real) \<le> 9211 / 10000"
proof -
  obtain t :: real where t: "cos (2 / 5 :: real) =
      (\<Sum>m<4. cos_coeff m * (2 / 5) ^ m) + cos (t + 1 / 2 * real 4 * pi) / fact 4 * (2 / 5) ^ 4"
    using Maclaurin_cos_expansion [of "2 / 5" 4] by blast
  define r where "r = cos (t + 1 / 2 * real 4 * pi)"
  have s: "(\<Sum>m<4. cos_coeff m * (2 / 5 :: real) ^ m) = 23 / 25"
    by (simp add: eval_nat_numeral sin_coeff_Suc cos_coeff_Suc)
  have c: "\<bar>r\<bar> \<le> 1"
    unfolding r_def by (rule abs_cos_le_one)
  have f: "(2 / 5 :: real) ^ 4 / fact 4 = 2 / 1875"
    by (simp add: eval_nat_numeral fact_numeral)
  have "cos (2 / 5 :: real) = 23 / 25 + r * ((2 / 5) ^ 4 / fact 4)"
    using t unfolding s r_def by simp
  then have "cos (2 / 5 :: real) = 23 / 25 + r * (2 / 1875)"
    unfolding f .
  with c show ?thesis by linarith
qed

lemma date_sampleDay [simp]: "date (sampleDay ds i) = ds i"
  by (simp add: sampleDay_def Let_def)

text \<open>The entry of loop index 0, today's: 89.5, 87.2 and 83.8.\<close>

lemma sampleDay_0:
  "sampleDay ds 0 =
     \<lparr> sleep = 895 / 10, physicalActivity = 872 / 10, socialInteraction = 838 / 10,
       date = ds 0 \<rparr>"
proof -
  have a: "toFixed1 (clamp (85 + sin (3 / 5) * 8) 70 98) = of_int 895 / 10"
    using sin_06_bounds by (intro toFixed1_eq) (simp_all add: clamp_def min_def max_def)
  have b: "toFixed1 (clamp (78 + cos (2 / 5) * 10) 60 95) = of_int 872 / 10"
    using cos_04_bounds by (intro toFixed1_eq) (simp_all add: clamp_def min_def max_def)
  have c: "toFixed1 (clamp (72 + sin (7 / 5) * 12) 55 92) = of_int 838 / 10"
    using sin_14_bounds by (intro toFixed1_eq) (simp_all add: clamp_def min_def max_def)
  show ?thesis
    using a b c by (simp add: sampleDay_def Let_def)
qed

subsection \<open>The sample data of ten days\<close>

text \<open>The date strings of the ten days up to 10 January 2024, by days before that day.\<close>

definition tenDaysBack :: "nat \<Rightarrow> string" where
  "tenDaysBack i =
     (if i < 10
      then [''2024-01-10'', ''2024-01-09'', ''2024-01-08'', ''2024-01-07'', ''2024-01-06'',
            ''2024-01-05'', ''2024-01-04'', ''2024-01-03'', ''2024-01-02'', ''2024-01-01''] ! i
      else ''2023-12-31'')"

lemma upt_10: "[0..<10] = [0, 1, 2, 3, 4, 5, 6, 7, 8, 9]"
  by (simp add: upt_rec)

lemma sample_sorted:
  "sortNewestFirst (map (sampleDay tenDaysBack) [0..<10]) = map (sampleDay tenDaysBack) [0..<10]"
  by (rule sortNewestFirst_id) (simp add: upt_10 tenDaysBack_def)

text \<open>
  Claim C1 as stated fails for \<open>generateSampleWellbeingData\<close>. With the ten days the
  provider asks for, the current score has the dimensions 89.5, 87.2 and 83.8 and the
  overall score 86.8, while the mean of the three is 86.8333...: \<open>overall\<close> is the mean
  rounded to one decimal.
\<close>

theorem sample_overall_is_not_the_mean:
  "map_option snd (generateSampleWellbeingData tenDaysBack 0 10)
     = Some \<lparr> sleep = 895 / 10, physicalActivity = 872 / 10, socialInteraction = 838 / 10,
              overall = 868 / 10, lastUpdated = 0 \<rparr>
   \<and> (868 / 10 :: real) \<noteq> (895 / 10 + 872 / 10 + 838 / 10) / 3"
proof -
  have "map (sampleDay tenDaysBack) [0..<10]
          = sampleDay tenDaysBack 0 # map (sampleDay tenDaysBack) [1, 2, 3, 4, 5, 6, 7, 8, 9]"
    by (simp add: upt_10)
  then show ?thesis
    unfolding generateSampleWellbeingData_def Let_def sample_sorted
    by (simp add: sampleDay_0 calculateOverallScore_def toFixed1_mean)
qed

text \<open>
  Claim C1, amended. Every current score that \<open>updateScores\<close> produces has \<open>overall\<close>
  equal to the arithmetic mean of its three dimension fields, computed from the new
  dimensions on every call. The current score that \<open>generateSampleWellbeingData\<close>
  produces has \<open>overall\<close> equal to that mean rounded to one decimal, hence within 0.05 of
  it; with \<open>days = 0\<close> the function produces no score.
\<close>

theorem overall_is_mean_or_rounded_mean:
  "(\<exists>new. currentScores (updateScores env metrics st) = Some new
          \<and> overall new = (sleep new + physicalActivity new + socialInteraction new) / 3)
   \<and> (case generateSampleWellbeingData dateString today days of
         None \<Rightarrow> days = 0
       | Some (daily, cur) \<Rightarrow>
           overall cur
             = toFixed1 ((sleep cur + physicalActivity cur + socialInteraction cur) / 3)
           \<and> \<bar>overall cur - (sleep cur + physicalActivity cur + socialInteraction cur) / 3\<bar>
               \<le> 1 / 20)"
proof
  show "\<exists>new. currentScores (updateScores env metrics st) = Some new
          \<and> overall new = (sleep new + physicalActivity new + socialInteraction new) / 3"
    by (simp add: currentScores_updateScores Let_def)
next
  define xs where "xs = sortNewestFirst (map (sampleDay dateString) [0..<days])"
  have gen: "generateSampleWellbeingData dateString today days =
      (case xs of
         [] \<Rightarrow> None
       | latest # _ \<Rightarrow>
           Some (xs,
             \<lparr> sleep = sleep latest,
               physicalActivity = physicalActivity latest,
               socialInteraction = socialInteraction latest,
               overall = toFixed1
                 ((sleep latest + physicalActivity latest + socialInteraction latest) / 3),
               lastUpdated = today \<rparr>))"
    unfolding generateSampleWellbeingData_def Let_def xs_def calculateOverallScore_def
    by (simp split: list.splits)
  show "case generateSampleWellbeingData dateString today days of
         None \<Rightarrow> days = 0
       | Some (daily, cur) \<Rightarrow>
           overall cur
             = toFixed1 ((sleep cur + physicalActivity cur + socialInteraction cur) / 3)
           \<and> \<bar>overall cur - (sleep cur + physicalActivity cur + socialInteraction cur) / 3\<bar>
               \<le> 1 / 20"
  proof (cases xs)
    case Nil
    then have "length xs = 0" by simp
    then have "days = 0" by (simp add: xs_def)
    with Nil show ?thesis
      unfolding gen by simp
  next
    case (Cons latest rest)
    then show ?thesis
      unfolding gen
      using toFixed1_close
              [of "(sleep latest + physicalActivity latest + socialInteraction latest) / 3"]
      by simp
  qed
qed

end
